theory Spec2Isabelle
  imports Complex_Main "HOL-Library.Word" "HOL-Library.Monad_Syntax"
begin

section \<open>Numbers and vectors of the shader\<close>

text \<open>
  The compute shader of \<^verbatim>\<open>src/main.ts\<close> is written in WGSL. Its \<^verbatim>\<open>f32\<close> values are
  modelled by real numbers: rounding, overflow and NaN are outside the model. An \<^verbatim>\<open>f32\<close>
  division whose divisor is zero has no real result (WGSL leaves the value indeterminate);
  every division of the shader is therefore written with \<open>fdiv\<close>, which returns \<open>None\<close>
  there, and a function that divides returns an \<open>option\<close>. The \<^verbatim>\<open>u32\<close> and \<^verbatim>\<open>i32\<close>
  values are 32-bit words.
\<close>

type_synonym f32 = real
type_synonym u32 = "32 word"
type_synonym i32 = "32 word"

datatype vec2 = Vec2 (ux: f32) (uy: f32)
datatype vec3 = Vec3 (vx: f32) (vy: f32) (vz: f32)
datatype vec4 = Vec4 f32 f32 f32 f32

definition fdiv :: "f32 \<Rightarrow> f32 \<Rightarrow> f32 option" where
  "fdiv a b = (if b = 0 then None else Some (a / b))"

text \<open>\<^verbatim>\<open>f32(n)\<close> for an unsigned \<open>n\<close>.\<close>

definition f32_of_u32 :: "u32 \<Rightarrow> f32" where
  "f32_of_u32 n = real (unat n)"

text \<open>The componentwise operators of WGSL on \<^verbatim>\<open>vec3<f32>\<close>: \<open>a + b\<close>, \<open>a - b\<close>, \<open>-a\<close>,
  \<open>a * s\<close>, \<open>s * a\<close>, \<open>a / s\<close>, and the built-in functions \<^verbatim>\<open>dot\<close>, \<^verbatim>\<open>length\<close>
  (here \<open>vlength\<close>) and \<^verbatim>\<open>normalize\<close> (here \<open>vnormalize\<close>; it is \<open>v / length v\<close>).\<close>

definition vadd :: "vec3 \<Rightarrow> vec3 \<Rightarrow> vec3" where
  "vadd a b = Vec3 (vx a + vx b) (vy a + vy b) (vz a + vz b)"

definition vsub :: "vec3 \<Rightarrow> vec3 \<Rightarrow> vec3" where
  "vsub a b = Vec3 (vx a - vx b) (vy a - vy b) (vz a - vz b)"

definition vneg :: "vec3 \<Rightarrow> vec3" where
  "vneg a = Vec3 (- vx a) (- vy a) (- vz a)"

definition vscale :: "vec3 \<Rightarrow> f32 \<Rightarrow> vec3" where
  "vscale a s = Vec3 (vx a * s) (vy a * s) (vz a * s)"

definition smul :: "f32 \<Rightarrow> vec3 \<Rightarrow> vec3" where
  "smul s a = Vec3 (s * vx a) (s * vy a) (s * vz a)"

definition vdiv :: "vec3 \<Rightarrow> f32 \<Rightarrow> vec3 option" where
  "vdiv a s = (if s = 0 then None else Some (Vec3 (vx a / s) (vy a / s) (vz a / s)))"

definition dot :: "vec3 \<Rightarrow> vec3 \<Rightarrow> f32" where
  "dot a b = vx a * vx b + vy a * vy b + vz a * vz b"

definition vlength :: "vec3 \<Rightarrow> f32" where
  "vlength a = sqrt (dot a a)"

definition vnormalize :: "vec3 \<Rightarrow> vec3 option" where
  "vnormalize a = vdiv a (vlength a)"

definition vec4_of :: "vec3 \<Rightarrow> f32 \<Rightarrow> vec4" where
  "vec4_of c w = Vec4 (vx c) (vy c) (vz c) w"

section \<open>The geometry module: \<^verbatim>\<open>hittableShapesShader\<close>\<close>

record Ray =
  origin :: vec3
  direction :: vec3

record Sphere =
  center :: vec3
  radius :: f32

record FaceNormalRecord =
  front_face :: bool
  normal :: vec3

record HitRecord =
  p :: vec3
  normal :: vec3
  t :: f32
  hit :: bool
  front_face :: bool

text \<open>\<^verbatim>\<open>var rec: HitRecord;\<close> without an initialiser holds the zero value of the type.\<close>

definition zero_HitRecord :: HitRecord where
  "zero_HitRecord =
     \<lparr>p = Vec3 0 0 0, normal = Vec3 0 0 0, t = 0, hit = False, front_face = False\<rparr>"

definition rayAt :: "Ray \<Rightarrow> f32 \<Rightarrow> vec3" where
  "rayAt ray s = vadd (origin ray) (vscale (direction ray) s)"

definition setFaceNormal :: "HitRecord \<Rightarrow> Ray \<Rightarrow> vec3 \<Rightarrow> FaceNormalRecord" where
  "setFaceNormal rec r outwardNormal =
     (let frontFaceDirections = dot (direction r) outwardNormal in
      if frontFaceDirections < 0
      then \<lparr>FaceNormalRecord.front_face = True, FaceNormalRecord.normal = outwardNormal\<rparr>
      else \<lparr>FaceNormalRecord.front_face = False, FaceNormalRecord.normal = vneg outwardNormal\<rparr>)"

text \<open>Lines 82 to 90 of \<^verbatim>\<open>hit_sphere\<close>: what the function does with the root it has
  accepted. The source reaches these lines from both roots.\<close>

definition hit_sphere_accept :: "Sphere \<Rightarrow> Ray \<Rightarrow> HitRecord \<Rightarrow> f32 \<Rightarrow> HitRecord option" where
  "hit_sphere_accept sphere r rec0 root' =
     (let rec1 = rec0\<lparr>t := root'\<rparr>;
          rec2 = rec1\<lparr>p := rayAt r (t rec1)\<rparr> in
      do {
        n \<leftarrow> vdiv (vsub (p rec2) (center sphere)) (radius sphere);
        let rec3 = rec2\<lparr>normal := n\<rparr>;
            faceNormalRec = setFaceNormal rec3 r (normal rec3);
            rec4 = rec3\<lparr>front_face := FaceNormalRecord.front_face faceNormalRec\<rparr>;
            rec5 = rec4\<lparr>normal := FaceNormalRecord.normal faceNormalRec\<rparr>
        in Some (rec5\<lparr>hit := True\<rparr>)
      })"

definition hit_sphere :: "Sphere \<Rightarrow> Ray \<Rightarrow> f32 \<Rightarrow> f32 \<Rightarrow> HitRecord option" where
  "hit_sphere sphere r ray_tmin ray_tmax =
     (let rec = zero_HitRecord\<lparr>hit := False\<rparr>;
          oc = vsub (center sphere) (origin r);
          a = dot (direction r) (direction r);
          h = dot (direction r) oc;
          c = dot oc oc - radius sphere * radius sphere;
          discriminant = h * h - a * c
      in
      if discriminant < 0 then Some rec
      else
        let sqrtd = sqrt discriminant in
        do {
          root \<leftarrow> fdiv (h - sqrtd) a;
          if root \<le> ray_tmin \<or> ray_tmax \<le> root then
            do {
              root \<leftarrow> fdiv (h + sqrtd) a;
              if root \<le> ray_tmin \<or> ray_tmax \<le> root then Some rec
              else hit_sphere_accept sphere r rec root
            }
          else hit_sphere_accept sphere r rec root
        })"

section \<open>The compute shader\<close>

text \<open>
  The storage texture \<^verbatim>\<open>output\<close>: its dimensions and the texels written so far. A texel
  holds the \<^verbatim>\<open>vec4<f32>\<close> that \<^verbatim>\<open>textureStore\<close> was given; the conversion to
  \<^verbatim>\<open>rgba8unorm\<close> is not modelled. The shader's global \<^verbatim>\<open>output\<close> is an explicit argument
  of the functions that use it.
\<close>

record texture_storage_2d =
  dims_of :: "u32 \<times> u32"
  texels :: "i32 \<times> i32 \<Rightarrow> vec4 option"

definition textureDimensions :: "texture_storage_2d \<Rightarrow> u32 \<times> u32" where
  "textureDimensions output = dims_of output"

definition textureStore :: "texture_storage_2d \<Rightarrow> i32 \<times> i32 \<Rightarrow> vec4 \<Rightarrow> texture_storage_2d" where
  "textureStore output coords v = output\<lparr>texels := (texels output)(coords \<mapsto> v)\<rparr>"

definition createRay :: "texture_storage_2d \<Rightarrow> vec2 \<Rightarrow> Ray option" where
  "createRay output uv =
     do {
       aspectRatio \<leftarrow> fdiv (f32_of_u32 (fst (textureDimensions output)))
                           (f32_of_u32 (snd (textureDimensions output)));
       let origin = Vec3 0 0 0;
           direction = Vec3 (ux uv * aspectRatio) (uy uv) (- 1)
       in do {
         d \<leftarrow> vnormalize direction;
         Some \<lparr>origin = origin, direction = d\<rparr>
       }
     }"

definition lerp :: "vec3 \<Rightarrow> vec3 \<Rightarrow> f32 \<Rightarrow> vec3" where
  "lerp a b s = vadd (vscale a (1 - s)) (vscale b s)"

text \<open>Lines 117 to 123 of \<^verbatim>\<open>rayColor\<close>: the shading of the record that \<^verbatim>\<open>hit_sphere\<close>
  returned.\<close>

definition rayColor_shade :: "Ray \<Rightarrow> HitRecord \<Rightarrow> vec3 option" where
  "rayColor_shade ray rec =
     (if t rec > 0 then
        do {
          N \<leftarrow> vnormalize (vsub (rayAt ray (t rec)) (Vec3 0 0 (- 1)));
          Some (smul 0.5 (Vec3 (vx N + 1) (vy N + 1) (vz N + 1)))
        }
      else
        do {
          unit_direction \<leftarrow> vnormalize (direction ray);
          let a = 0.5 * (vy unit_direction + 1)
          in Some (lerp (Vec3 1 1 1) (Vec3 0.5 0.7 1) a)
        })"

definition rayColor :: "Ray \<Rightarrow> vec3 option" where
  "rayColor ray =
     do {
       rec \<leftarrow> hit_sphere \<lparr>center = Vec3 0 0 (- 1), radius = 0.5\<rparr> ray 0 10000;
       rayColor_shade ray rec
     }"

text \<open>Line 141 of \<^verbatim>\<open>main\<close>, componentwise:
  \<^verbatim>\<open>(vec2<f32>(coords) + 0.5) / vec2<f32>(dims) * 2.0 - 1.0\<close>.\<close>

definition pixel_uv :: "u32 \<times> u32 \<Rightarrow> u32 \<times> u32 \<Rightarrow> vec2 option" where
  "pixel_uv dims coords =
     do {
       qx \<leftarrow> fdiv (f32_of_u32 (fst coords) + 0.5) (f32_of_u32 (fst dims));
       qy \<leftarrow> fdiv (f32_of_u32 (snd coords) + 0.5) (f32_of_u32 (snd dims));
       Some (Vec2 (qx * 2 - 1) (qy * 2 - 1))
     }"

text \<open>The entry point \<^verbatim>\<open>main\<close>, for the invocation whose \<^verbatim>\<open>global_invocation_id\<close> has
  the \<open>x\<close> and \<open>y\<close> components \<open>gid\<close> (the third is not read). It returns the
  texture after the invocation; the conversion of the coordinates to \<^verbatim>\<open>vec2<i32>\<close> keeps
  their bits.\<close>

definition main :: "texture_storage_2d \<Rightarrow> u32 \<times> u32 \<Rightarrow> texture_storage_2d option" where
  "main output gid =
     (let dims = textureDimensions output;
          coords = gid
      in
      if fst coords \<ge> fst dims \<or> snd coords \<ge> snd dims then Some output
      else
        do {
          uv \<leftarrow> pixel_uv dims coords;
          ray \<leftarrow> createRay output uv;
          pixel_color \<leftarrow> rayColor ray;
          Some (textureStore output coords (vec4_of pixel_color 1))
        })"

section \<open>The host program\<close>

text \<open>
  The TypeScript of \<^verbatim>\<open>src/main.ts\<close> drives WebGPU objects. The model keeps what the
  program can observe or change of them. A device holds the textures it has created (a
  handle is the position in that list), each with its size and the flag that
  \<^verbatim>\<open>GPUTexture.destroy\<close> would set, a counter of compute pipelines, and the command
  buffers submitted to its queue. The render pipeline and the sampler are created once
  and never replaced; they are not part of the state. JavaScript numbers that hold sizes
  are integers here; garbage collection is not modelled.
\<close>

type_synonym handle = nat

record GPUTexture =
  tex_size :: "int \<times> int"
  tex_destroyed :: bool

datatype resource = SamplerBinding | TextureViewBinding handle

type_synonym GPUBindGroup = "(nat \<times> resource) list"

text \<open>A compute pass: pipeline, bind group 0 and the workgroup counts of its dispatch. A
  render pass: bind group 0 and the number of vertices drawn.\<close>

datatype pass =
  ComputePass handle GPUBindGroup "int \<times> int"
  | RenderPass GPUBindGroup nat

record GPUDevice =
  maxTextureDimension2D :: int
  textures :: "GPUTexture list"
  n_pipelines :: nat
  queue :: "pass list list"

definition createTexture :: "GPUDevice \<Rightarrow> int \<times> int \<Rightarrow> handle \<times> GPUDevice" where
  "createTexture dev sz =
     (length (textures dev),
      dev\<lparr>textures := textures dev @ [\<lparr>tex_size = sz, tex_destroyed = False\<rparr>]\<rparr>)"

definition createComputePipeline :: "GPUDevice \<Rightarrow> handle \<times> GPUDevice" where
  "createComputePipeline dev = (n_pipelines dev, dev\<lparr>n_pipelines := Suc (n_pipelines dev)\<rparr>)"

definition submit :: "GPUDevice \<Rightarrow> pass list \<Rightarrow> GPUDevice" where
  "submit dev commands = dev\<lparr>queue := queue dev @ [commands]\<rparr>"

text \<open>The value \<^verbatim>\<open>{ pipeline, bindGroup, texture }\<close> that \<^verbatim>\<open>createComputeShader\<close> returns.\<close>

record ComputeShader =
  pipeline :: handle
  bindGroup :: GPUBindGroup
  texture :: handle

definition createComputeShader :: "GPUDevice \<Rightarrow> int \<times> int \<Rightarrow> ComputeShader \<times> GPUDevice" where
  "createComputeShader dev textureSize =
     (let (pipeline, dev1) = createComputePipeline dev;
          (texture, dev2) = createTexture dev1 textureSize;
          bindGroup = [(0, TextureViewBinding texture)]
      in (\<lparr>pipeline = pipeline, bindGroup = bindGroup, texture = texture\<rparr>, dev2))"

text \<open>The variables that the closures of \<^verbatim>\<open>main\<close> share: the device, the size of the
  canvas, the size last given to \<^verbatim>\<open>context.configure\<close> (\<^verbatim>\<open>initWebGPU\<close> gives none),
  \<^verbatim>\<open>textureSize\<close>, \<^verbatim>\<open>computeShader\<close> and \<^verbatim>\<open>renderBindGroup\<close>.\<close>

record host =
  device :: GPUDevice
  canvas_size :: "int \<times> int"
  context_size :: "(int \<times> int) option"
  textureSize :: "int \<times> int"
  computeShader :: ComputeShader
  renderBindGroup :: GPUBindGroup

definition width :: int where
  "width = 400"

definition aspectRation :: real where
  "aspectRation = 16 / 9"

definition height :: int where
  "height = \<lfloor>real_of_int width / aspectRation\<rfloor>"

definition updateBindGroups :: "host \<Rightarrow> host" where
  "updateBindGroups st =
     st\<lparr>renderBindGroup :=
          [(0, SamplerBinding), (1, TextureViewBinding (texture (computeShader st)))]\<rparr>"

definition render :: "host \<Rightarrow> host" where
  "render st =
     (let computePass =
            ComputePass (pipeline (computeShader st)) (bindGroup (computeShader st))
              (\<lceil>real_of_int (fst (textureSize st)) / 8\<rceil>, \<lceil>real_of_int (snd (textureSize st)) / 8\<rceil>);
          renderPass = RenderPass (renderBindGroup st) 4
      in st\<lparr>device := submit (device st) [computePass, renderPass]\<rparr>)"

text \<open>An entry of a resize notification: the observed size of the canvas element.\<close>

record ResizeObserverEntry =
  contentRect :: "real \<times> real"

text \<open>The body of the loop in the \<^verbatim>\<open>ResizeObserver\<close> callback (lines 294 to 313), and the
  callback.\<close>

definition observer_entry :: "ResizeObserverEntry \<Rightarrow> host \<Rightarrow> host" where
  "observer_entry entry st =
     (let canvas_width = max 1 (min width (maxTextureDimension2D (device st)));
          canvas_height = max 1 (min height (maxTextureDimension2D (device st)));
          st1 = st\<lparr>canvas_size := (canvas_width, canvas_height)\<rparr>;
          st2 = st1\<lparr>context_size := Some (fst (canvas_size st1), snd (canvas_size st1))\<rparr>;
          st3 = st2\<lparr>textureSize := (fst (canvas_size st2), snd (canvas_size st2))\<rparr>;
          (cs, dev) = createComputeShader (device st3) (textureSize st3);
          st4 = st3\<lparr>computeShader := cs, device := dev\<rparr>;
          st5 = updateBindGroups st4
      in render st5)"

definition observer :: "ResizeObserverEntry list \<Rightarrow> host \<Rightarrow> host" where
  "observer entries st = fold observer_entry entries st"

text \<open>\<^verbatim>\<open>main\<close> of the host (lines 232 to 321), from the device that \<^verbatim>\<open>initWebGPU\<close>
  returned up to the initial render.\<close>

definition main_host :: "GPUDevice \<Rightarrow> host" where
  "main_host dev =
     (let canvas_width = max 1 (min width (maxTextureDimension2D dev));
          canvas_height = max 1 (min height (maxTextureDimension2D dev));
          textureSize = (canvas_width, canvas_height);
          (cs, dev1) = createComputeShader dev textureSize;
          st = \<lparr>device = dev1, canvas_size = (canvas_width, canvas_height),
                context_size = None, textureSize = textureSize, computeShader = cs,
                renderBindGroup = []\<rparr>;
          st1 = updateBindGroups st
      in render st1)"

section \<open>Facts about the geometry module\<close>

lemmas vec_defs = vadd_def vsub_def vneg_def vscale_def smul_def vdiv_def dot_def vlength_def
  vnormalize_def

lemma sqrt_quarter: "sqrt (1 / 4) = 1 / 2"
  by (simp add: real_sqrt_divide)

lemma hit_sphere_accept_Some:
  "radius sphere \<noteq> 0 \<Longrightarrow>
   \<exists>rec. hit_sphere_accept sphere r rec0 x = Some rec \<and> hit rec \<and> t rec = x"
  by (simp add: hit_sphere_accept_def vdiv_def Let_def)

lemma hit_sphere_accept_None:
  "radius sphere = 0 \<Longrightarrow> hit_sphere_accept sphere r rec0 x = None"
  by (simp add: hit_sphere_accept_def vdiv_def Let_def)

text \<open>The branches of \<^verbatim>\<open>hit_sphere\<close>, with the two tests of the source
  (\<open>root \<le> ray_tmin \<or> ray_tmax \<le> root\<close>) read as membership in the open interval.\<close>

lemma hit_sphere_cases:
  "hit_sphere sphere r tmin tmax =
    (let oc = vsub (center sphere) (origin r);
         a = dot (direction r) (direction r);
         h = dot (direction r) oc;
         c = dot oc oc - radius sphere * radius sphere;
         discriminant = h * h - a * c;
         sqrtd = sqrt discriminant;
         root1 = (h - sqrtd) / a;
         root2 = (h + sqrtd) / a;
         miss = zero_HitRecord\<lparr>hit := False\<rparr>
     in if discriminant < 0 then Some miss
        else if a = 0 then None
        else if tmin < root1 \<and> root1 < tmax then hit_sphere_accept sphere r miss root1
        else if tmin < root2 \<and> root2 < tmax then hit_sphere_accept sphere r miss root2
        else Some miss)"
  by (simp add: hit_sphere_def fdiv_def Let_def not_less not_le)

lemma hit_sphere_accept_hit:
  "hit_sphere_accept sphere r rec0 x = Some rec \<Longrightarrow> hit rec"
  by (auto simp: hit_sphere_accept_def vdiv_def Let_def split: if_splits)

text \<open>A record with \<open>hit = false\<close> that \<^verbatim>\<open>hit_sphere\<close> returns is the zero-initialised one, and
  the direction of its ray is not zero.\<close>

lemma hit_sphere_miss:
  assumes "hit_sphere sphere r tmin tmax = Some rec" and "\<not> hit rec"
  shows "rec = zero_HitRecord \<and> dot (direction r) (direction r) \<noteq> 0"
proof -
  let ?oc = "vsub (center sphere) (origin r)"
  let ?a = "dot (direction r) (direction r)"
  let ?h = "dot (direction r) ?oc"
  let ?c = "dot ?oc ?oc - radius sphere * radius sphere"
  have a: "?a \<noteq> 0"
  proof
    assume "?a = 0"
    then have "\<not> ?h * ?h - ?a * ?c < 0" by simp
    with \<open>?a = 0\<close> assms(1) show False
      by (simp add: hit_sphere_cases Let_def)
  qed
  have "rec = zero_HitRecord"
    using assms a hit_sphere_accept_hit [of sphere r _ _ rec]
    by (auto simp: hit_sphere_cases Let_def zero_HitRecord_def split: if_splits)
  with a show ?thesis by simp
qed

lemma vnormalize_Some:
  "dot a a \<noteq> 0 \<Longrightarrow>
   vnormalize a = Some (Vec3 (vx a / vlength a) (vy a / vlength a) (vz a / vlength a))"
  by (simp add: vnormalize_def vdiv_def vlength_def)

lemma vnormalize_None: "dot a a = 0 \<Longrightarrow> vnormalize a = None"
  by (simp add: vnormalize_def vdiv_def vlength_def)

lemma rayColor_shade_miss:
  "dot (direction ray) (direction ray) \<noteq> 0 \<Longrightarrow> \<not> 0 < t rec \<Longrightarrow>
   \<exists>u. vnormalize (direction ray) = Some u \<and>
       rayColor_shade ray rec = Some (lerp (Vec3 1 1 1) (Vec3 0.5 0.7 1) (0.5 * (vy u + 1)))"
  by (simp add: rayColor_shade_def vnormalize_Some)

text \<open>The ray from the origin along \<open>(0, 0, -1)\<close> against the sphere of the scene.\<close>

lemma centre_ray_hit:
  "hit_sphere \<lparr>center = Vec3 0 0 (- 1), radius = 0.5\<rparr>
      \<lparr>origin = Vec3 0 0 0, direction = Vec3 0 0 (- 1)\<rparr> 0 10000
   = Some \<lparr>p = Vec3 0 0 (- 0.5), normal = Vec3 0 0 1, t = 0.5, hit = True, front_face = True\<rparr>"
  by (simp add: hit_sphere_cases hit_sphere_accept_def setFaceNormal_def rayAt_def Let_def
      vec_defs zero_HitRecord_def sqrt_quarter)

section \<open>Facts about the compute shader\<close>

text \<open>The squared distance of a point of the ray from a centre, as a quadratic in the
  ray parameter.\<close>

lemma dot_hit_point:
  "dot (vsub (rayAt r x) c) (vsub (rayAt r x) c)
   = x * x * dot (direction r) (direction r)
     - 2 * x * dot (direction r) (vsub c (origin r))
     + dot (vsub c (origin r)) (vsub c (origin r))"
  by (simp add: rayAt_def dot_def vsub_def vadd_def vscale_def algebra_simps)

lemma root_solves:
  fixes a h c s x :: real
  assumes "a \<noteq> 0" and "s * s = h * h - a * c" and "x = (h - s) / a \<or> x = (h + s) / a"
  shows "x * x * a - 2 * x * h + c = 0"
proof -
  from assms(1,3) have "a * x - h = - s \<or> a * x - h = s"
    by (auto simp: field_simps)
  then have "(a * x - h) * (a * x - h) = s * s"
    by auto
  with assms(2) have "a * (x * x * a - 2 * x * h + c) = 0"
    by (simp add: algebra_simps)
  with assms(1) show ?thesis by simp
qed

text \<open>The root that \<^verbatim>\<open>hit_sphere\<close> accepts lies in the open interval, and the point of
  the ray there is at distance \<open>radius\<close> from the centre.\<close>

lemma accepted_point_on_sphere:
  assumes "hit_sphere sphere r tmin tmax = Some rec" and "hit rec"
  shows "dot (vsub (rayAt r (t rec)) (center sphere)) (vsub (rayAt r (t rec)) (center sphere))
         = radius sphere * radius sphere \<and> tmin < t rec \<and> t rec < tmax"
proof -
  let ?oc = "vsub (center sphere) (origin r)"
  let ?a = "dot (direction r) (direction r)"
  let ?h = "dot (direction r) ?oc"
  let ?c = "dot ?oc ?oc - radius sphere * radius sphere"
  let ?s = "sqrt (?h * ?h - ?a * ?c)"
  have nz: "\<not> hit (zero_HitRecord\<lparr>hit := False\<rparr>)" by simp
  from assms nz have d: "0 \<le> ?h * ?h - ?a * ?c" and a: "?a \<noteq> 0"
    by (auto simp: hit_sphere_cases Let_def split: if_splits)
  from assms nz obtain x where x: "x = (?h - ?s) / ?a \<or> x = (?h + ?s) / ?a"
    and acc: "hit_sphere_accept sphere r (zero_HitRecord\<lparr>hit := False\<rparr>) x = Some rec"
    and iv: "tmin < x \<and> x < tmax"
    by (auto simp: hit_sphere_cases Let_def split: if_splits)
  from acc have tx: "t rec = x"
    by (auto simp: hit_sphere_accept_def vdiv_def Let_def split: if_splits)
  from d have "?s * ?s = ?h * ?h - ?a * ?c" by simp
  from root_solves [OF a this x] have "x * x * ?a - 2 * x * ?h + ?c = 0" .
  then show ?thesis using iv by (simp add: tx dot_hit_point)
qed

lemma dot_self_nonneg: "0 \<le> dot a a"
  by (simp add: dot_def)

lemma vnormalize_unit:
  assumes "vnormalize v = Some u"
  shows "dot u u = 1"
proof -
  let ?l = "vlength v"
  from assms have l: "?l \<noteq> 0" and u: "u = Vec3 (vx v / ?l) (vy v / ?l) (vz v / ?l)"
    by (auto simp: vnormalize_def vdiv_def split: if_splits)
  have ll: "?l * ?l = dot v v"
    using dot_self_nonneg [of v] by (simp add: vlength_def)
  from l have "?l * ?l \<noteq> 0" by simp
  moreover have "dot u u = dot v v / (?l * ?l)"
    by (simp add: u dot_def add_divide_distrib)
  ultimately show ?thesis by (simp add: ll)
qed

lemma hit_sphere_Some:
  assumes "dot (direction r) (direction r) \<noteq> 0" and "radius sphere \<noteq> 0"
  shows "\<exists>rec. hit_sphere sphere r tmin tmax = Some rec"
  using assms hit_sphere_accept_Some [OF assms(2), of r]
  by (simp add: hit_sphere_cases Let_def) blast

text \<open>\<^verbatim>\<open>rayColor\<close> divides by zero for no ray whose direction is not zero.\<close>

lemma rayColor_Some:
  assumes "dot (direction ray) (direction ray) \<noteq> 0"
  shows "\<exists>c. rayColor ray = Some c"
proof -
  let ?scene = "\<lparr>center = Vec3 0 0 (- 1), radius = 0.5\<rparr>"
  from hit_sphere_Some [OF assms, of ?scene 0 10000]
  obtain rec where rec: "hit_sphere ?scene ray 0 10000 = Some rec"
    by auto
  show ?thesis
  proof (cases "hit rec")
    case True
    from accepted_point_on_sphere [OF rec True]
    have "dot (vsub (rayAt ray (t rec)) (Vec3 0 0 (- 1))) (vsub (rayAt ray (t rec)) (Vec3 0 0 (- 1)))
          \<noteq> 0" and "0 < t rec"
      by simp_all
    then show ?thesis
      unfolding rayColor_def rec
      by (simp add: rayColor_shade_def vnormalize_Some)
  next
    case False
    from hit_sphere_miss [OF rec False] have "\<not> 0 < t rec"
      by (simp add: zero_HitRecord_def)
    from rayColor_shade_miss [OF assms this] show ?thesis
      unfolding rayColor_def rec by auto
  qed
qed

lemma createRay_Some:
  assumes "snd (dims_of output) \<noteq> 0"
  shows "\<exists>ray. createRay output uv = Some ray \<and> origin ray = Vec3 0 0 0
     \<and> vnormalize (Vec3 (ux uv * (f32_of_u32 (fst (dims_of output)) / f32_of_u32 (snd (dims_of output))))
                     (uy uv) (- 1)) = Some (direction ray)
     \<and> dot (direction ray) (direction ray) = 1"
proof -
  let ?asp = "f32_of_u32 (fst (dims_of output)) / f32_of_u32 (snd (dims_of output))"
  let ?d = "Vec3 (ux uv * ?asp) (uy uv) (- 1)"
  from assms have h: "f32_of_u32 (snd (dims_of output)) \<noteq> 0"
    by (simp add: f32_of_u32_def unsigned_eq_0_iff)
  have "0 < dot ?d ?d"
    by (simp add: dot_def add_nonneg_pos)
  then have "dot ?d ?d \<noteq> 0" by simp
  from vnormalize_Some [OF this] obtain u where u: "vnormalize ?d = Some u"
    by blast
  from vnormalize_unit [OF u] have "dot u u = 1" .
  with u h show ?thesis
    by (simp add: createRay_def textureDimensions_def fdiv_def Let_def)
qed

lemma pixel_uv_Some:
  assumes "fst coords < fst dims" and "snd coords < snd dims"
  shows "pixel_uv dims coords
     = Some (Vec2 ((f32_of_u32 (fst coords) + 0.5) / f32_of_u32 (fst dims) * 2 - 1)
                  ((f32_of_u32 (snd coords) + 0.5) / f32_of_u32 (snd dims) * 2 - 1))"
proof -
  from assms have "fst dims \<noteq> 0" and "snd dims \<noteq> 0"
    by (auto simp: word_less_nat_alt)
  then show ?thesis
    by (simp add: pixel_uv_def fdiv_def f32_of_u32_def unsigned_eq_0_iff)
qed

lemma createRay_dims:
  "textureDimensions out1 = textureDimensions out2 \<Longrightarrow> createRay out1 uv = createRay out2 uv"
  by (simp add: createRay_def)

text \<open>An invocation inside the image: the ray, its colour and the one texel written.\<close>

lemma main_in_bounds:
  assumes "fst gid < fst (textureDimensions output)"
    and "snd gid < snd (textureDimensions output)"
  shows "\<exists>uv ray c. pixel_uv (textureDimensions output) gid = Some uv
     \<and> createRay output uv = Some ray
     \<and> vnormalize (Vec3 (ux uv * (f32_of_u32 (fst (textureDimensions output))
                                   / f32_of_u32 (snd (textureDimensions output))))
                     (uy uv) (- 1)) = Some (direction ray)
     \<and> dot (direction ray) (direction ray) = 1
     \<and> rayColor ray = Some c
     \<and> main output gid = Some (textureStore output gid (vec4_of c 1))"
proof -
  from pixel_uv_Some [OF assms] obtain uv where
    uv: "pixel_uv (textureDimensions output) gid = Some uv"
    by blast
  from assms(2) have "snd (dims_of output) \<noteq> 0"
    by (auto simp: textureDimensions_def word_less_nat_alt)
  from createRay_Some [OF this, of uv] obtain ray where
    ray: "createRay output uv = Some ray"
    and n: "vnormalize (Vec3 (ux uv * (f32_of_u32 (fst (dims_of output))
              / f32_of_u32 (snd (dims_of output)))) (uy uv) (- 1)) = Some (direction ray)"
    and u: "dot (direction ray) (direction ray) = 1"
    by blast
  from u have "dot (direction ray) (direction ray) \<noteq> 0" by simp
  from rayColor_Some [OF this] obtain c where c: "rayColor ray = Some c"
    by blast
  from assms have "main output gid = Some (textureStore output gid (vec4_of c 1))"
    by (simp add: main_def Let_def uv ray c not_le [symmetric])
  with uv ray n u c show ?thesis
    by (simp add: textureDimensions_def)
qed

lemma sqrt_25_16: "sqrt (25 / 16) = 5 / 4"
  by (rule real_sqrt_unique) (simp_all add: power2_eq_square)

text \<open>The pixel \<open>(0, 3)\<close> of an image one texel wide and four high.\<close>

lemma corner_ray:
  "pixel_uv (1, 4) (0, 3) = Some (Vec2 0 (3 / 4))
   \<and> createRay \<lparr>dims_of = (1, 4), texels = \<lambda>_. None\<rparr> (Vec2 0 (3 / 4))
       = Some \<lparr>origin = Vec3 0 0 0, direction = Vec3 0 (3 / 5) (- (4 / 5))\<rparr>"
  by (simp add: pixel_uv_def createRay_def textureDimensions_def fdiv_def f32_of_u32_def
      vec_defs Let_def sqrt_25_16)

text \<open>The only pixel of a \<open>1 \<times> 1\<close> image looks along \<open>(0, 0, -1)\<close>.\<close>

lemma centre_ray_rayColor:
  "rayColor \<lparr>origin = Vec3 0 0 0, direction = Vec3 0 0 (- 1)\<rparr> = Some (Vec3 (1 / 2) (1 / 2) 1)"
  unfolding rayColor_def centre_ray_hit
  by (simp add: rayColor_shade_def rayAt_def vec_defs sqrt_quarter)

lemma centre_pixel:
  "main \<lparr>dims_of = (1, 1), texels = \<lambda>_. None\<rparr> (0, 0)
   = Some (textureStore \<lparr>dims_of = (1, 1), texels = \<lambda>_. None\<rparr> (0, 0)
             (Vec4 (1 / 2) (1 / 2) 1 1))"
proof -
  have uv: "pixel_uv (1, 1) (0, 0) = Some (Vec2 0 0)"
    by (simp add: pixel_uv_def fdiv_def f32_of_u32_def)
  have ray: "createRay \<lparr>dims_of = (1, 1), texels = \<lambda>_. None\<rparr> (Vec2 0 0)
      = Some \<lparr>origin = Vec3 0 0 0, direction = Vec3 0 0 (- 1)\<rparr>"
    by (simp add: createRay_def textureDimensions_def fdiv_def f32_of_u32_def vec_defs Let_def)
  show ?thesis
    by (simp add: main_def Let_def textureDimensions_def uv ray centre_ray_rayColor vec4_of_def)
qed

lemma textureStore_inject:
  "textureStore output coords v = textureStore output coords w \<Longrightarrow> v = w"
  by (auto simp: textureStore_def dest: map_upd_eqD1 elim!: texture_storage_2d.equality
        dest!: arg_cong [where f = texels])

section \<open>Facts about the host program\<close>

lemma height_eq: "height = 225"
  by (simp add: height_def width_def aspectRation_def)

lemmas host_defs = observer_entry_def createComputeShader_def createTexture_def
  createComputePipeline_def updateBindGroups_def render_def submit_def Let_def

text \<open>Each entry of a notification adds one texture to the device and destroys none.\<close>

lemma observer_entry_textures:
  "textures (device (observer_entry entry st))
   = textures (device st)
     @ [\<lparr>tex_size = textureSize (observer_entry entry st), tex_destroyed = False\<rparr>]"
  by (simp add: host_defs)

lemma observer_live_textures:
  "length (filter (\<lambda>x. \<not> tex_destroyed x) (textures (device (observer entries st))))
   = length (filter (\<lambda>x. \<not> tex_destroyed x) (textures (device st))) + length entries"
  unfolding observer_def
  by (induction entries arbitrary: st) (simp_all add: observer_entry_textures)

text \<open>The program on a device whose limit is 8192: after the start, and after one
  notification that the canvas element is now \<open>800 \<times> 600\<close>.\<close>

lemma main_host_8192:
  "main_host \<lparr>maxTextureDimension2D = 8192, textures = [], n_pipelines = 0, queue = []\<rparr>
   = \<lparr>device = \<lparr>maxTextureDimension2D = 8192,
                  textures = [\<lparr>tex_size = (400, 225), tex_destroyed = False\<rparr>],
                  n_pipelines = 1,
                  queue = [[ComputePass 0 [(0, TextureViewBinding 0)] (50, 29),
                            RenderPass [(0, SamplerBinding), (1, TextureViewBinding 0)] 4]]\<rparr>,
      canvas_size = (400, 225), context_size = None, textureSize = (400, 225),
      computeShader = \<lparr>pipeline = 0, bindGroup = [(0, TextureViewBinding 0)], texture = 0\<rparr>,
      renderBindGroup = [(0, SamplerBinding), (1, TextureViewBinding 0)]\<rparr>"
  by (simp add: main_host_def host_defs height_eq width_def)

lemma resized_8192:
  "observer [\<lparr>contentRect = (800, 600)\<rparr>]
     (main_host \<lparr>maxTextureDimension2D = 8192, textures = [], n_pipelines = 0, queue = []\<rparr>)
   = \<lparr>device = \<lparr>maxTextureDimension2D = 8192,
                  textures = [\<lparr>tex_size = (400, 225), tex_destroyed = False\<rparr>,
                              \<lparr>tex_size = (400, 225), tex_destroyed = False\<rparr>],
                  n_pipelines = 2,
                  queue = [[ComputePass 0 [(0, TextureViewBinding 0)] (50, 29),
                            RenderPass [(0, SamplerBinding), (1, TextureViewBinding 0)] 4],
                           [ComputePass 1 [(0, TextureViewBinding 1)] (50, 29),
                            RenderPass [(0, SamplerBinding), (1, TextureViewBinding 1)] 4]]\<rparr>,
      canvas_size = (400, 225), context_size = Some (400, 225), textureSize = (400, 225),
      computeShader = \<lparr>pipeline = 1, bindGroup = [(0, TextureViewBinding 1)], texture = 1\<rparr>,
      renderBindGroup = [(0, SamplerBinding), (1, TextureViewBinding 1)]\<rparr>"
  unfolding main_host_8192
  by (simp add: observer_def host_defs height_eq width_def)

text \<open>Each entry of a notification submits one command buffer.\<close>

lemma observer_entry_queue:
  "length (queue (device (observer_entry entry st))) = Suc (length (queue (device st)))"
  by (simp add: host_defs)

lemma observer_queue:
  "length (queue (device (observer entries st))) = length (queue (device st)) + length entries"
  unfolding observer_def
  by (induction entries arbitrary: st) (simp_all add: observer_entry_queue)

section \<open>Properties\<close>

text \<open>
  C1. For every sphere, ray, \<open>tmin\<close> and \<open>tmax\<close>: \<^verbatim>\<open>hit_sphere\<close> returns \<open>hit = false\<close>
  when the discriminant \<open>h\<^sup>2 - a c\<close> is negative. Otherwise it accepts the smaller root
  \<open>(h - sqrtd) / a\<close> if that root lies in the open interval between \<open>tmin\<close> and \<open>tmax\<close>,
  else the larger root \<open>(h + sqrtd) / a\<close> if that one lies in the interval, and returns
  \<open>hit = false\<close> if both roots fall outside. The last two conjuncts say what is left:
  with a zero direction (\<open>a = 0\<close>) the roots are quotients by zero, and with a zero
  radius the normal of an accepted root is one; the result is then indeterminate.
\<close>

theorem hit_sphere_nearest_root:
  "let oc = vsub (center sphere) (origin r);
       a = dot (direction r) (direction r);
       h = dot (direction r) oc;
       c = dot oc oc - radius sphere * radius sphere;
       discriminant = h * h - a * c;
       sqrtd = sqrt discriminant;
       root1 = (h - sqrtd) / a;
       root2 = (h + sqrtd) / a;
       in1 = (tmin < root1 \<and> root1 < tmax);
       in2 = (tmin < root2 \<and> root2 < tmax);
       res = hit_sphere sphere r tmin tmax
   in (discriminant < 0 \<longrightarrow> (\<exists>rec. res = Some rec \<and> \<not> hit rec))
    \<and> (0 \<le> discriminant \<and> a \<noteq> 0 \<and> radius sphere \<noteq> 0 \<and> in1 \<longrightarrow>
          (\<exists>rec. res = Some rec \<and> hit rec \<and> t rec = root1))
    \<and> (0 \<le> discriminant \<and> a \<noteq> 0 \<and> radius sphere \<noteq> 0 \<and> \<not> in1 \<and> in2 \<longrightarrow>
          (\<exists>rec. res = Some rec \<and> hit rec \<and> t rec = root2))
    \<and> (0 \<le> discriminant \<and> a \<noteq> 0 \<and> \<not> in1 \<and> \<not> in2 \<longrightarrow>
          (\<exists>rec. res = Some rec \<and> \<not> hit rec))
    \<and> (0 \<le> discriminant \<and> a = 0 \<longrightarrow> res = None)
    \<and> (0 \<le> discriminant \<and> a \<noteq> 0 \<and> radius sphere = 0 \<and> (in1 \<or> in2) \<longrightarrow> res = None)"
  unfolding hit_sphere_cases Let_def
  by (simp add: zero_HitRecord_def hit_sphere_accept_Some hit_sphere_accept_None)

text \<open>One ray for each conjunct: the smaller root accepted (from outside the sphere), the
  larger root accepted (from the centre), both roots behind the origin, a negative
  discriminant, a zero direction, a zero radius.\<close>

theorem hit_sphere_nearest_root_witness:
  "(\<exists>rec. hit_sphere \<lparr>center = Vec3 0 0 (- 1), radius = 0.5\<rparr>
            \<lparr>origin = Vec3 0 0 0, direction = Vec3 0 0 (- 1)\<rparr> 0 10000 = Some rec
          \<and> hit rec \<and> t rec = 1 / 2)
   \<and> (\<exists>rec. hit_sphere \<lparr>center = Vec3 0 0 (- 1), radius = 0.5\<rparr>
            \<lparr>origin = Vec3 0 0 (- 1), direction = Vec3 0 0 (- 1)\<rparr> 0 10000 = Some rec
          \<and> hit rec \<and> t rec = 1 / 2)
   \<and> (\<exists>rec. hit_sphere \<lparr>center = Vec3 0 0 (- 1), radius = 0.5\<rparr>
            \<lparr>origin = Vec3 0 0 0, direction = Vec3 0 0 1\<rparr> 0 10000 = Some rec
          \<and> \<not> hit rec)
   \<and> (\<exists>rec. hit_sphere \<lparr>center = Vec3 0 0 (- 1), radius = 0.5\<rparr>
            \<lparr>origin = Vec3 0 0 0, direction = Vec3 0 1 0\<rparr> 0 10000 = Some rec
          \<and> \<not> hit rec)
   \<and> hit_sphere \<lparr>center = Vec3 0 0 (- 1), radius = 0.5\<rparr>
            \<lparr>origin = Vec3 0 0 0, direction = Vec3 0 0 0\<rparr> 0 10000 = None
   \<and> hit_sphere \<lparr>center = Vec3 0 0 (- 1), radius = 0\<rparr>
            \<lparr>origin = Vec3 0 0 0, direction = Vec3 0 0 (- 1)\<rparr> 0 10000 = None"
  using
    hit_sphere_nearest_root [of "\<lparr>center = Vec3 0 0 (- 1), radius = 0.5\<rparr>"
      "\<lparr>origin = Vec3 0 0 0, direction = Vec3 0 0 (- 1)\<rparr>" 0 10000]
    hit_sphere_nearest_root [of "\<lparr>center = Vec3 0 0 (- 1), radius = 0.5\<rparr>"
      "\<lparr>origin = Vec3 0 0 (- 1), direction = Vec3 0 0 (- 1)\<rparr>" 0 10000]
    hit_sphere_nearest_root [of "\<lparr>center = Vec3 0 0 (- 1), radius = 0.5\<rparr>"
      "\<lparr>origin = Vec3 0 0 0, direction = Vec3 0 0 1\<rparr>" 0 10000]
    hit_sphere_nearest_root [of "\<lparr>center = Vec3 0 0 (- 1), radius = 0.5\<rparr>"
      "\<lparr>origin = Vec3 0 0 0, direction = Vec3 0 1 0\<rparr>" 0 10000]
    hit_sphere_nearest_root [of "\<lparr>center = Vec3 0 0 (- 1), radius = 0.5\<rparr>"
      "\<lparr>origin = Vec3 0 0 0, direction = Vec3 0 0 0\<rparr>" 0 10000]
    hit_sphere_nearest_root [of "\<lparr>center = Vec3 0 0 (- 1), radius = 0\<rparr>"
      "\<lparr>origin = Vec3 0 0 0, direction = Vec3 0 0 (- 1)\<rparr>" 0 10000]
  by (simp add: Let_def dot_def vsub_def sqrt_quarter)


text \<open>
  C2. For every ray and every outward normal, \<^verbatim>\<open>setFaceNormal\<close> returns
  \<open>front_face = (dot direction outwardNormal < 0)\<close>, returns the normal unchanged when
  that holds and negated otherwise, and the returned normal has a dot product with the
  direction that is at most zero.
\<close>

theorem setFaceNormal_faces_ray:
  "FaceNormalRecord.front_face (setFaceNormal rec r n) = (dot (direction r) n < 0)
   \<and> FaceNormalRecord.normal (setFaceNormal rec r n)
       = (if dot (direction r) n < 0 then n else vneg n)
   \<and> dot (direction r) (FaceNormalRecord.normal (setFaceNormal rec r n)) \<le> 0"
  by (simp add: setFaceNormal_def Let_def dot_def vneg_def)

theorem setFaceNormal_faces_ray_witness:
  "\<not> FaceNormalRecord.front_face
       (setFaceNormal zero_HitRecord \<lparr>origin = Vec3 0 0 0, direction = Vec3 0 0 (- 1)\<rparr>
          (Vec3 0 0 (- 1)))
   \<and> FaceNormalRecord.normal
       (setFaceNormal zero_HitRecord \<lparr>origin = Vec3 0 0 0, direction = Vec3 0 0 (- 1)\<rparr>
          (Vec3 0 0 (- 1))) = Vec3 0 0 1"
  using setFaceNormal_faces_ray [of zero_HitRecord
      "\<lparr>origin = Vec3 0 0 0, direction = Vec3 0 0 (- 1)\<rparr>" "Vec3 0 0 (- 1)"]
  by (simp add: dot_def vneg_def)

text \<open>
  C3 (as the code has it). For the ray with origin \<open>(0, 0, 0)\<close> and direction \<open>(0, 0, -1)\<close>,
  \<^verbatim>\<open>hit_sphere\<close> against the sphere with centre \<open>(0, 0, -1)\<close> and radius \<open>0.5\<close> accepts
  the root \<open>0.5\<close> with the normal \<open>(0, 0, 1)\<close>, and \<^verbatim>\<open>rayColor\<close> returns
  \<open>0.5 * (normal + 1)\<close>, which is the colour \<open>(0.5, 0.5, 1)\<close>.
\<close>

theorem centre_ray_color:
  "(\<exists>rec. hit_sphere \<lparr>center = Vec3 0 0 (- 1), radius = 0.5\<rparr>
            \<lparr>origin = Vec3 0 0 0, direction = Vec3 0 0 (- 1)\<rparr> 0 10000 = Some rec
          \<and> hit rec \<and> t rec = 0.5 \<and> normal rec = Vec3 0 0 1)
   \<and> rayColor \<lparr>origin = Vec3 0 0 0, direction = Vec3 0 0 (- 1)\<rparr>
       = Some (smul 0.5 (vadd (Vec3 0 0 1) (Vec3 1 1 1)))
   \<and> smul 0.5 (vadd (Vec3 0 0 1) (Vec3 1 1 1)) = Vec3 0.5 0.5 1"
  unfolding rayColor_def centre_ray_hit
  by (simp add: rayColor_shade_def rayAt_def vec_defs sqrt_quarter)

text \<open>C3 as stated gives the colour \<open>(1, 1, 0.5)\<close>; \<^verbatim>\<open>rayColor\<close> does not return it.\<close>

theorem centre_ray_color_counterexample:
  "rayColor \<lparr>origin = Vec3 0 0 0, direction = Vec3 0 0 (- 1)\<rparr> \<noteq> Some (Vec3 1 1 0.5)"
  unfolding rayColor_def centre_ray_hit
  by (simp add: rayColor_shade_def rayAt_def vec_defs sqrt_quarter)

text \<open>
  C4 (as the code has it). The shading of \<^verbatim>\<open>rayColor\<close> reads the field \<open>t\<close> of every
  record it is given, also of one whose \<open>hit\<close> flag is false, and no other field: two
  records with the same \<open>t\<close> are shaded alike. A record with \<open>hit = false\<close> that
  \<^verbatim>\<open>hit_sphere\<close> returns holds the zero-initialised \<open>t = 0\<close>, \<open>p\<close> and \<open>normal\<close>, so the
  test \<open>rec.t > 0\<close> fails and the colour is the gradient, computed from the ray alone.
\<close>

theorem rayColor_shade_reads_t:
  "(t rec1 = t rec2 \<longrightarrow> rayColor_shade ray rec1 = rayColor_shade ray rec2)
   \<and> (hit_sphere sphere ray tmin tmax = Some rec \<and> \<not> hit rec \<longrightarrow>
        t rec = 0 \<and> p rec = Vec3 0 0 0 \<and> normal rec = Vec3 0 0 0
        \<and> rayColor_shade ray rec =
            do {
              unit_direction \<leftarrow> vnormalize (direction ray);
              Some (lerp (Vec3 1 1 1) (Vec3 0.5 0.7 1) (0.5 * (vy unit_direction + 1)))
            })"
proof -
  have "rayColor_shade ray rec1 = rayColor_shade ray rec2" if "t rec1 = t rec2"
    using that by (simp add: rayColor_shade_def)
  moreover have "t rec = 0 \<and> p rec = Vec3 0 0 0 \<and> normal rec = Vec3 0 0 0
        \<and> rayColor_shade ray rec =
            do {
              unit_direction \<leftarrow> vnormalize (direction ray);
              Some (lerp (Vec3 1 1 1) (Vec3 0.5 0.7 1) (0.5 * (vy unit_direction + 1)))
            }"
    if "hit_sphere sphere ray tmin tmax = Some rec" and "\<not> hit rec"
  proof -
    from hit_sphere_miss [OF that] have "rec = zero_HitRecord" by simp
    then show ?thesis by (simp add: zero_HitRecord_def rayColor_shade_def)
  qed
  ultimately show ?thesis by blast
qed

theorem rayColor_shade_reads_t_witness:
  "rayColor_shade \<lparr>origin = Vec3 0 0 0, direction = Vec3 0 1 0\<rparr>
      (zero_HitRecord\<lparr>p := Vec3 1 2 3, normal := Vec3 4 5 6\<rparr>)
    = rayColor_shade \<lparr>origin = Vec3 0 0 0, direction = Vec3 0 1 0\<rparr> zero_HitRecord
   \<and> rayColor_shade \<lparr>origin = Vec3 0 0 0, direction = Vec3 0 1 0\<rparr> zero_HitRecord
    = Some (Vec3 0.5 0.7 1)"
proof -
  have m: "hit_sphere \<lparr>center = Vec3 0 0 (- 1), radius = 0.5\<rparr>
      \<lparr>origin = Vec3 0 0 0, direction = Vec3 0 1 0\<rparr> 0 10000 = Some zero_HitRecord"
    by (simp add: hit_sphere_cases Let_def dot_def vsub_def zero_HitRecord_def)
  have nh: "\<not> hit zero_HitRecord" by (simp add: zero_HitRecord_def)
  have n: "vnormalize (Vec3 0 1 0) = Some (Vec3 0 1 0)"
    by (simp add: vec_defs)
  have e: "t (zero_HitRecord\<lparr>p := Vec3 1 2 3, normal := Vec3 4 5 6\<rparr>) = t zero_HitRecord"
    by simp
  from rayColor_shade_reads_t [of "zero_HitRecord\<lparr>p := Vec3 1 2 3, normal := Vec3 4 5 6\<rparr>"
      zero_HitRecord "\<lparr>origin = Vec3 0 0 0, direction = Vec3 0 1 0\<rparr>"
      "\<lparr>center = Vec3 0 0 (- 1), radius = 0.5\<rparr>" 0 10000 zero_HitRecord] m nh n e
  show ?thesis by (simp add: lerp_def vadd_def vscale_def)
qed

text \<open>C4 as stated says that the fields \<open>t\<close>, \<open>p\<close> and \<open>normal\<close> of a record with
  \<open>hit = false\<close> are not consulted. Two such records that differ in \<open>t\<close> only are shaded
  differently: line 117 tests \<open>rec.t > 0\<close>, not \<open>rec.hit\<close>.\<close>

theorem rayColor_shade_reads_t_counterexample:
  "\<not> hit zero_HitRecord \<and> \<not> hit (zero_HitRecord\<lparr>t := 1\<rparr>)
   \<and> rayColor_shade \<lparr>origin = Vec3 0 0 0, direction = Vec3 0 0 1\<rparr> zero_HitRecord
       = Some (Vec3 0.75 0.85 1)
   \<and> rayColor_shade \<lparr>origin = Vec3 0 0 0, direction = Vec3 0 0 1\<rparr> (zero_HitRecord\<lparr>t := 1\<rparr>)
       = Some (Vec3 0.5 0.5 1)"
  by (simp add: zero_HitRecord_def rayColor_shade_def rayAt_def lerp_def vec_defs)

text \<open>
  C7. For every ray that misses the sphere of the scene (\<^verbatim>\<open>hit_sphere\<close> returns
  \<open>hit = false\<close>), \<^verbatim>\<open>rayColor\<close> returns the blend \<open>white * (1 - a) + skyBlue * a\<close> with
  \<open>a = 0.5 * (unit_direction.y + 1)\<close>, where \<open>unit_direction\<close> is the normalised
  direction (it exists: the direction of such a ray is not zero). When \<open>unit_direction.y\<close>
  is \<open>-1\<close> the colour is exactly white, when it is \<open>1\<close> exactly \<open>(0.5, 0.7, 1)\<close>.
\<close>

theorem rayColor_miss_gradient:
  assumes "hit_sphere \<lparr>center = Vec3 0 0 (- 1), radius = 0.5\<rparr> ray 0 10000 = Some rec"
    and "\<not> hit rec"
  shows "\<exists>u. vnormalize (direction ray) = Some u
      \<and> rayColor ray = Some (lerp (Vec3 1 1 1) (Vec3 0.5 0.7 1) (0.5 * (vy u + 1)))
      \<and> lerp (Vec3 1 1 1) (Vec3 0.5 0.7 1) (0.5 * (vy u + 1))
          = vadd (vscale (Vec3 1 1 1) (1 - 0.5 * (vy u + 1)))
                 (vscale (Vec3 0.5 0.7 1) (0.5 * (vy u + 1)))
      \<and> (vy u = - 1 \<longrightarrow> rayColor ray = Some (Vec3 1 1 1))
      \<and> (vy u = 1 \<longrightarrow> rayColor ray = Some (Vec3 0.5 0.7 1))"
proof -
  from hit_sphere_miss [OF assms]
  have z: "rec = zero_HitRecord" and a: "dot (direction ray) (direction ray) \<noteq> 0"
    by simp_all
  from z have "\<not> 0 < t rec" by (simp add: zero_HitRecord_def)
  from rayColor_shade_miss [OF a this] obtain u where
    u: "vnormalize (direction ray) = Some u"
    and s: "rayColor_shade ray rec = Some (lerp (Vec3 1 1 1) (Vec3 0.5 0.7 1) (0.5 * (vy u + 1)))"
    by blast
  from s assms(1)
  have c: "rayColor ray = Some (lerp (Vec3 1 1 1) (Vec3 0.5 0.7 1) (0.5 * (vy u + 1)))"
    by (simp add: rayColor_def)
  have "vy u = - 1 \<longrightarrow> rayColor ray = Some (Vec3 1 1 1)"
    by (simp add: c lerp_def vadd_def vscale_def)
  moreover have "vy u = 1 \<longrightarrow> rayColor ray = Some (Vec3 0.5 0.7 1)"
    by (simp add: c lerp_def vadd_def vscale_def)
  ultimately show ?thesis using u c by (simp add: lerp_def)
qed

text \<open>The straight-down and the straight-up ray from the origin.\<close>

theorem rayColor_miss_gradient_witness:
  "rayColor \<lparr>origin = Vec3 0 0 0, direction = Vec3 0 (- 1) 0\<rparr> = Some (Vec3 1 1 1)
   \<and> rayColor \<lparr>origin = Vec3 0 0 0, direction = Vec3 0 1 0\<rparr> = Some (Vec3 0.5 0.7 1)"
proof -
  have m1: "hit_sphere \<lparr>center = Vec3 0 0 (- 1), radius = 0.5\<rparr>
      \<lparr>origin = Vec3 0 0 0, direction = Vec3 0 (- 1) 0\<rparr> 0 10000 = Some zero_HitRecord"
    by (simp add: hit_sphere_cases Let_def dot_def vsub_def zero_HitRecord_def)
  have m2: "hit_sphere \<lparr>center = Vec3 0 0 (- 1), radius = 0.5\<rparr>
      \<lparr>origin = Vec3 0 0 0, direction = Vec3 0 1 0\<rparr> 0 10000 = Some zero_HitRecord"
    by (simp add: hit_sphere_cases Let_def dot_def vsub_def zero_HitRecord_def)
  have nh: "\<not> hit zero_HitRecord" by (simp add: zero_HitRecord_def)
  have n1: "vnormalize (Vec3 0 (- 1) 0) = Some (Vec3 0 (- 1) 0)"
    by (simp add: vec_defs)
  have n2: "vnormalize (Vec3 0 1 0) = Some (Vec3 0 1 0)"
    by (simp add: vec_defs)
  from rayColor_miss_gradient [OF m1 nh] rayColor_miss_gradient [OF m2 nh] n1 n2
  show ?thesis by auto
qed

text \<open>
  C5 (as the code has it). The kernel normalises the camera ray direction when it
  constructs the ray: for every pixel of the image, \<^verbatim>\<open>createRay\<close> returns the ray whose
  direction is \<open>normalize (uv.x * aspectRatio, uv.y, -1)\<close>, of length one, and that ray
  is the one \<^verbatim>\<open>main\<close> hands to \<^verbatim>\<open>rayColor\<close>.
\<close>

theorem createRay_direction_normalized:
  assumes "fst gid < fst (textureDimensions output)"
    and "snd gid < snd (textureDimensions output)"
  shows "\<exists>uv ray. pixel_uv (textureDimensions output) gid = Some uv
     \<and> createRay output uv = Some ray
     \<and> vnormalize (Vec3 (ux uv * (f32_of_u32 (fst (textureDimensions output))
                                   / f32_of_u32 (snd (textureDimensions output))))
                     (uy uv) (- 1)) = Some (direction ray)
     \<and> vlength (direction ray) = 1
     \<and> main output gid =
         do {
           pixel_color \<leftarrow> rayColor ray;
           Some (textureStore output gid (vec4_of pixel_color 1))
         }"
proof -
  from main_in_bounds [OF assms] obtain uv ray c where
    "pixel_uv (textureDimensions output) gid = Some uv"
    "createRay output uv = Some ray"
    "vnormalize (Vec3 (ux uv * (f32_of_u32 (fst (textureDimensions output))
                                   / f32_of_u32 (snd (textureDimensions output))))
                     (uy uv) (- 1)) = Some (direction ray)"
    "dot (direction ray) (direction ray) = 1"
    "rayColor ray = Some c"
    "main output gid = Some (textureStore output gid (vec4_of c 1))"
    by blast
  then show ?thesis
    by (intro exI [of _ uv] exI [of _ ray]) (simp add: vlength_def)
qed

theorem createRay_direction_normalized_witness:
  "\<exists>ray. createRay \<lparr>dims_of = (1, 4), texels = \<lambda>_. None\<rparr> (Vec2 0 (3 / 4)) = Some ray
     \<and> vlength (direction ray) = 1"
  using createRay_direction_normalized [of "(0, 3)" "\<lparr>dims_of = (1, 4), texels = \<lambda>_. None\<rparr>"]
  by (auto simp: textureDimensions_def corner_ray)

text \<open>C5 as stated says that the ray carries the direction \<open>(uv.x * aspectRatio, uv.y, -1)\<close>
  as it is. For the pixel \<open>(0, 3)\<close> of a \<open>1 \<times> 4\<close> image \<open>uv\<close> is \<open>(0, 3/4)\<close> and the aspect
  ratio \<open>1/4\<close>; the ray carries \<open>(0, 3/5, -4/5)\<close>, not \<open>(0, 3/4, -1)\<close>.\<close>

theorem createRay_direction_normalized_counterexample:
  "pixel_uv (textureDimensions \<lparr>dims_of = (1, 4), texels = \<lambda>_. None\<rparr>) (0, 3)
     = Some (Vec2 0 (3 / 4))
   \<and> createRay \<lparr>dims_of = (1, 4), texels = \<lambda>_. None\<rparr> (Vec2 0 (3 / 4))
       = Some \<lparr>origin = Vec3 0 0 0, direction = Vec3 0 (3 / 5) (- (4 / 5))\<rparr>
   \<and> createRay \<lparr>dims_of = (1, 4), texels = \<lambda>_. None\<rparr> (Vec2 0 (3 / 4))
       \<noteq> Some \<lparr>origin = Vec3 0 0 0, direction = Vec3 (0 * (1 / 4)) (3 / 4) (- 1)\<rparr>"
  by (simp add: corner_ray textureDimensions_def)

text \<open>
  C6. An invocation whose coordinate has \<open>x \<ge> width\<close> or \<open>y \<ge> height\<close> of the output
  image writes nothing: the texture after it is the texture before it, whatever the
  dimensions are.
\<close>

theorem main_out_of_bounds_noop:
  assumes "fst gid \<ge> fst (textureDimensions output) \<or> snd gid \<ge> snd (textureDimensions output)"
  shows "main output gid = Some output"
  using assms by (simp add: main_def Let_def)

text \<open>A \<open>401 \<times> 225\<close> image is covered by \<open>51 \<times> 29\<close> tiles of \<open>8 \<times> 8\<close>, which reach to
  \<open>x = 407\<close> and \<open>y = 231\<close>.\<close>

theorem main_out_of_bounds_noop_witness:
  "main \<lparr>dims_of = (401, 225), texels = \<lambda>_. None\<rparr> (401, 0)
     = Some \<lparr>dims_of = (401, 225), texels = \<lambda>_. None\<rparr>
   \<and> main \<lparr>dims_of = (401, 225), texels = \<lambda>_. None\<rparr> (0, 225)
     = Some \<lparr>dims_of = (401, 225), texels = \<lambda>_. None\<rparr>
   \<and> main \<lparr>dims_of = (401, 225), texels = \<lambda>_. None\<rparr> (407, 231)
     = Some \<lparr>dims_of = (401, 225), texels = \<lambda>_. None\<rparr>"
  using main_out_of_bounds_noop [of "\<lparr>dims_of = (401, 225), texels = \<lambda>_. None\<rparr>" "(401, 0)"]
    main_out_of_bounds_noop [of "\<lparr>dims_of = (401, 225), texels = \<lambda>_. None\<rparr>" "(0, 225)"]
    main_out_of_bounds_noop [of "\<lparr>dims_of = (401, 225), texels = \<lambda>_. None\<rparr>" "(407, 231)"]
  by (simp add: textureDimensions_def)

text \<open>
  C10. The colour an invocation stores depends on its coordinate and on the dimensions
  of the image only: on two textures of the same dimensions, whatever texels they hold
  (whatever other invocations have written), the invocation for a pixel inside the image
  stores the same colour, at its own coordinate and nowhere else.
\<close>

theorem main_color_of_coords_and_dims:
  assumes "textureDimensions out1 = textureDimensions out2"
    and "fst gid < fst (textureDimensions out1)"
    and "snd gid < snd (textureDimensions out1)"
  shows "\<exists>c. main out1 gid = Some (textureStore out1 gid (vec4_of c 1))
           \<and> main out2 gid = Some (textureStore out2 gid (vec4_of c 1))"
proof -
  from main_in_bounds [OF assms(2,3)] obtain uv ray c where
    uv: "pixel_uv (textureDimensions out1) gid = Some uv"
    and ray: "createRay out1 uv = Some ray"
    and c: "rayColor ray = Some c"
    and m1: "main out1 gid = Some (textureStore out1 gid (vec4_of c 1))"
    by blast
  from ray createRay_dims [OF assms(1), of uv] have ray2: "createRay out2 uv = Some ray"
    by simp
  from assms have "main out2 gid = Some (textureStore out2 gid (vec4_of c 1))"
    using uv ray2 c by (simp add: main_def Let_def not_le [symmetric])
  with m1 show ?thesis by blast
qed

text \<open>Two \<open>1 \<times> 1\<close> textures, one empty and one already written.\<close>

theorem main_color_of_coords_and_dims_witness:
  "main \<lparr>dims_of = (1, 1), texels = \<lambda>_. None\<rparr> (0, 0)
   = Some (textureStore \<lparr>dims_of = (1, 1), texels = \<lambda>_. None\<rparr> (0, 0)
             (Vec4 (1 / 2) (1 / 2) 1 1))
   \<and> main \<lparr>dims_of = (1, 1), texels = \<lambda>_. Some (Vec4 0 0 0 1)\<rparr> (0, 0)
   = Some (textureStore \<lparr>dims_of = (1, 1), texels = \<lambda>_. Some (Vec4 0 0 0 1)\<rparr> (0, 0)
             (Vec4 (1 / 2) (1 / 2) 1 1))"
proof -
  let ?o1 = "\<lparr>dims_of = (1, 1), texels = \<lambda>_. None\<rparr>"
  let ?o2 = "\<lparr>dims_of = (1, 1), texels = \<lambda>_. Some (Vec4 0 0 0 1)\<rparr>"
  have "textureDimensions ?o1 = textureDimensions ?o2"
    and "fst (0, 0) < fst (textureDimensions ?o1)"
    and "snd (0, 0) < snd (textureDimensions ?o1)"
    by (simp_all add: textureDimensions_def)
  from main_color_of_coords_and_dims [OF this] obtain c where
    c1: "main ?o1 (0, 0) = Some (textureStore ?o1 (0, 0) (vec4_of c 1))"
    and c2: "main ?o2 (0, 0) = Some (textureStore ?o2 (0, 0) (vec4_of c 1))"
    by blast
  from c1 centre_pixel have "vec4_of c 1 = Vec4 (1 / 2) (1 / 2) 1 1"
    by (auto dest: textureStore_inject)
  with c2 centre_pixel show ?thesis by simp
qed

text \<open>
  C8 (as the code has it). A rebuild (one entry of a resize notification) creates the new
  output image and destroys nothing: the textures of the device are those it had, as they
  were, and the new one. The new image is the one that \<^verbatim>\<open>computeShader.texture\<close>, the
  bind group of the kernel and the bind group of the presentation refer to. After a
  notification of several entries the device holds as many more textures that are not
  destroyed.
\<close>

theorem observer_rebuild_keeps_prior_texture:
  "(let st' = observer [entry] st;
        new = length (textures (device st))
    in textures (device st')
         = textures (device st) @ [\<lparr>tex_size = textureSize st', tex_destroyed = False\<rparr>]
     \<and> texture (computeShader st') = new
     \<and> bindGroup (computeShader st') = [(0, TextureViewBinding new)]
     \<and> renderBindGroup st' = [(0, SamplerBinding), (1, TextureViewBinding new)])
   \<and> length (filter (\<lambda>x. \<not> tex_destroyed x) (textures (device (observer entries st))))
     = length (filter (\<lambda>x. \<not> tex_destroyed x) (textures (device st))) + length entries"
  by (simp add: observer_live_textures) (simp add: observer_def host_defs)

theorem observer_rebuild_keeps_prior_texture_witness:
  "textures (device (observer [\<lparr>contentRect = (800, 600)\<rparr>]
        (main_host \<lparr>maxTextureDimension2D = 8192, textures = [], n_pipelines = 0,
                     queue = []\<rparr>)))
     = [\<lparr>tex_size = (400, 225), tex_destroyed = False\<rparr>,
        \<lparr>tex_size = (400, 225), tex_destroyed = False\<rparr>]
   \<and> texture (computeShader (observer [\<lparr>contentRect = (800, 600)\<rparr>]
        (main_host \<lparr>maxTextureDimension2D = 8192, textures = [], n_pipelines = 0,
                     queue = []\<rparr>))) = 1"
  using observer_rebuild_keeps_prior_texture [of "\<lparr>contentRect = (800, 600)\<rparr>"
      "main_host \<lparr>maxTextureDimension2D = 8192, textures = [], n_pipelines = 0, queue = []\<rparr>"
      "[]"]
  by (simp add: resized_8192)

text \<open>C8 as stated says that one output image exists after every rebuild. After the
  start and one notification the device holds two textures, neither destroyed.\<close>

theorem observer_rebuild_keeps_prior_texture_counterexample:
  "length (filter (\<lambda>x. \<not> tex_destroyed x)
     (textures (device (observer [\<lparr>contentRect = (800, 600)\<rparr>]
        (main_host \<lparr>maxTextureDimension2D = 8192, textures = [], n_pipelines = 0,
                     queue = []\<rparr>))))) = 2"
  unfolding resized_8192 by simp

text \<open>
  What the resize callback does. On every entry of a resize notification it sets the
  canvas, the presentation surface and the output image to the base size of the program,
  \<open>400 \<times> 225\<close>, clamped to \<open>[1, maxTextureDimension2D]\<close>; the size in the entry is not
  read. It creates the output image at that size and then renders at once: the queue gets
  one more command buffer, the dispatch of \<open>\<lceil>w / 8\<rceil> \<times> \<lceil>h / 8\<rceil>\<close> workgroups followed by
  the draw of four vertices, both bound to the new image. A notification of several
  entries submits one command buffer for each.
\<close>

lemma observer_renders_fixed_size:
  "(let st' = observer [entry] st;
        w = max 1 (min 400 (maxTextureDimension2D (device st)));
        h = max 1 (min 225 (maxTextureDimension2D (device st)))
    in canvas_size st' = (w, h)
     \<and> context_size st' = Some (w, h)
     \<and> textureSize st' = (w, h)
     \<and> tex_size (textures (device st') ! texture (computeShader st')) = (w, h)
     \<and> 1 \<le> w \<and> 1 \<le> h
     \<and> (1 \<le> maxTextureDimension2D (device st) \<longrightarrow>
           w \<le> maxTextureDimension2D (device st) \<and> h \<le> maxTextureDimension2D (device st))
     \<and> queue (device st')
         = queue (device st)
           @ [[ComputePass (pipeline (computeShader st')) (bindGroup (computeShader st'))
                 (\<lceil>real_of_int w / 8\<rceil>, \<lceil>real_of_int h / 8\<rceil>),
               RenderPass (renderBindGroup st') 4]])
   \<and> length (queue (device (observer entries st)))
     = length (queue (device st)) + length entries"
  by (simp add: observer_queue) (simp add: observer_def host_defs height_eq width_def)

lemma observer_renders_fixed_size_instance:
  "canvas_size (observer [\<lparr>contentRect = (800, 600)\<rparr>]
        (main_host \<lparr>maxTextureDimension2D = 8192, textures = [], n_pipelines = 0,
                     queue = []\<rparr>)) = (400, 225)
   \<and> queue (device (observer [\<lparr>contentRect = (800, 600)\<rparr>]
        (main_host \<lparr>maxTextureDimension2D = 8192, textures = [], n_pipelines = 0,
                     queue = []\<rparr>)))
     = [[ComputePass 0 [(0, TextureViewBinding 0)] (50, 29),
         RenderPass [(0, SamplerBinding), (1, TextureViewBinding 0)] 4],
        [ComputePass 1 [(0, TextureViewBinding 1)] (50, 29),
         RenderPass [(0, SamplerBinding), (1, TextureViewBinding 1)] 4]]
   \<and> 1 \<le> maxTextureDimension2D (device
        (main_host \<lparr>maxTextureDimension2D = 8192, textures = [], n_pipelines = 0,
                     queue = []\<rparr>))"
proof -
  let ?st = "main_host \<lparr>maxTextureDimension2D = 8192, textures = [], n_pipelines = 0,
                         queue = []\<rparr>"
  have limit: "1 \<le> maxTextureDimension2D (device ?st)"
    by (simp add: main_host_8192)
  from observer_renders_fixed_size [of "\<lparr>contentRect = (800, 600)\<rparr>" ?st "[]"] limit
  show ?thesis by (simp add: resized_8192)
qed

text \<open>
  C9. The claim is that a resize notification sets the presentation surface and the output
  image to the requested width and height, clamped to \<open>[1, maxTextureDimension2D]\<close>. For a
  notification of \<open>800 \<times> 600\<close> on a device whose limit is 8192 that is \<open>800 \<times> 600\<close>.
  Lines 295 and 296 clamp the constants \<^verbatim>\<open>width\<close> and \<^verbatim>\<open>height\<close> of \<^verbatim>\<open>main\<close> instead, and
  the canvas, the surface and the image are \<open>400 \<times> 225\<close>.
\<close>

theorem observer_ignores_requested_size:
  "canvas_size (observer [\<lparr>contentRect = (800, 600)\<rparr>]
        (main_host \<lparr>maxTextureDimension2D = 8192, textures = [], n_pipelines = 0,
                     queue = []\<rparr>)) = (400, 225)
   \<and> textureSize (observer [\<lparr>contentRect = (800, 600)\<rparr>]
        (main_host \<lparr>maxTextureDimension2D = 8192, textures = [], n_pipelines = 0,
                     queue = []\<rparr>)) = (400, 225)
   \<and> context_size (observer [\<lparr>contentRect = (800, 600)\<rparr>]
        (main_host \<lparr>maxTextureDimension2D = 8192, textures = [], n_pipelines = 0,
                     queue = []\<rparr>)) = Some (400, 225)
   \<and> (400, 225) \<noteq> (max 1 (min 800 (8192 :: int)), max 1 (min 600 (8192 :: int)))"
  unfolding resized_8192 by simp

end
